theory Spec2Isabelle
  imports Main "HOL-Library.Word" "HOL-Library.Sublist"
begin

unbundle bit_operations_syntax

section \<open>Machine types, register writes and register reads\<close>

text \<open>
  The firmware runs on an 8-bit AVR: \<open>uint8_t\<close> and \<open>char\<close> are 8-bit words,
  \<open>uint16_t\<close> and \<open>unsigned int\<close> are 16-bit words.

  Everything the program does to the outside is a write to a register of the USB
  controller or a character on the diagnostic UART. These writes are kept, in program
  order, as a list of events. \<open>Write UEDATX v\<close> is a byte pushed into the FIFO of the
  endpoint selected by the last write to \<open>UENUM\<close>.
\<close>

type_synonym byte = "8 word"
type_synonym word16 = "16 word"

datatype reg = UENUM | UEDATX | UEINTX | UECONX | UECFG0X | UECFG1X | UDADDR

datatype event =
    Write reg byte
  | Set_bit reg nat
  | Clear_bit reg nat
  | Putchar char
  | Put_hex word16
  | Printf_P string

text \<open>
  Everything the program learns from the outside is a read of a volatile register. One
  \<open>snapshot\<close> is what the registers of the selected endpoint show at one point where
  the program looks at them; \<open>rd_UEDATX s i\<close> is the byte returned by the \<open>i\<close>-th
  read of the FIFO at that point. The environment is a list of snapshots, consumed in
  order: each polling iteration of a busy-wait loop, and each one-shot test of a
  register, takes the next one.
\<close>

record snapshot =
  rd_UEINTX :: byte
  rd_UEBCLX :: byte
  rd_UEBCHX :: byte
  rd_UESTA0X :: byte
  rd_UEDATX :: "nat \<Rightarrow> byte"

text \<open>
  A function of the firmware either returns (\<open>Done\<close>, with its result, the events
  it produced and the snapshots it left), or is still waiting on the hardware when the
  recorded snapshots end (\<open>Starved\<close>), or has entered one of the program's
  \<open>while(1)\<close> loops (\<open>Halted\<close>), or has read flash memory past the end of the
  object it was given (\<open>Overread\<close>; the program would read whatever follows in flash,
  which is not modelled).
\<close>

datatype 'a res =
    Done 'a "event list" "snapshot list"
  | Starved "event list"
  | Halted "event list"
  | Overread "event list"

fun emit :: "event list \<Rightarrow> 'a res \<Rightarrow> 'a res" where
  "emit es (Done a evs hw) = Done a (es @ evs) hw"
| "emit es (Starved evs) = Starved (es @ evs)"
| "emit es (Halted evs) = Halted (es @ evs)"
| "emit es (Overread evs) = Overread (es @ evs)"

fun bind_res :: "'a res \<Rightarrow> ('a \<Rightarrow> snapshot list \<Rightarrow> 'b res) \<Rightarrow> 'b res" where
  "bind_res (Done a evs hw) f = emit evs (f a hw)"
| "bind_res (Starved evs) f = Starved evs"
| "bind_res (Halted evs) f = Halted evs"
| "bind_res (Overread evs) f = Overread evs"

fun events_of :: "'a res \<Rightarrow> event list" where
  "events_of (Done a evs hw) = evs"
| "events_of (Starved evs) = evs"
| "events_of (Halted evs) = evs"
| "events_of (Overread evs) = evs"

fun returns :: "'a res \<Rightarrow> bool" where
  "returns (Done a evs hw) = True"
| "returns (Starved evs) = False"
| "returns (Halted evs) = False"
| "returns (Overread evs) = False"

fun result_of :: "'a res \<Rightarrow> 'a option" where
  "result_of (Done a evs hw) = Some a"
| "result_of (Starved evs) = None"
| "result_of (Halted evs) = None"
| "result_of (Overread evs) = None"

text \<open>The bytes pushed into the endpoint FIFO, in order: the data the host receives.\<close>

primrec tx_data :: "event list \<Rightarrow> byte list" where
  "tx_data [] = []"
| "tx_data (e # es) =
     (case e of Write r v \<Rightarrow> (if r = UEDATX then v # tx_data es else tx_data es)
              | _ \<Rightarrow> tx_data es)"

subsection \<open>Bit numbers of \<open>avr/io.h\<close> (ATmega32U4)\<close>

text \<open>
  The register bit numbers come from avr-libc's device header, which is not part of the
  repository; they are those of the ATmega32U4 data sheet.
\<close>

definition TXINI :: nat where "TXINI = 0"
definition RXOUTI :: nat where "RXOUTI = 2"
definition RXSTPI :: nat where "RXSTPI = 3"
definition FIFOCON :: nat where "FIFOCON = 7"
definition EPEN :: nat where "EPEN = 0"
definition STALLRQ :: nat where "STALLRQ = 5"
definition ALLOC :: nat where "ALLOC = 1"
definition CFGOK :: nat where "CFGOK = 7"
definition ADDEN :: nat where "ADDEN = 7"

subsection \<open>The macros of the source\<close>

definition EP0_SIZE :: byte where "EP0_SIZE = 64"

definition EP_select :: "byte \<Rightarrow> event list" where
  "EP_select N = [Write UENUM (N AND 0x07)]"

definition EP_write8 :: "byte \<Rightarrow> event list" where
  "EP_write8 V = [Write UEDATX V]"

definition EP_write16_le :: "word16 \<Rightarrow> event list" where
  "EP_write16_le V = [Write UEDATX (ucast (V AND 0xff)), Write UEDATX (ucast (drop_bit 8 V AND 0xff))]"

definition EP_read16_le :: "byte \<Rightarrow> byte \<Rightarrow> word16" where
  "EP_read16_le L H = push_bit 8 (ucast H) OR ucast L"

text \<open>\<open>loop_until_bit_is_set(UEINTX, b)\<close>: poll until the bit shows.\<close>

fun loop_until_bit_is_set_UEINTX :: "nat \<Rightarrow> snapshot list \<Rightarrow> unit res" where
  "loop_until_bit_is_set_UEINTX b [] = Starved []"
| "loop_until_bit_is_set_UEINTX b (s # hw) =
     (if bit (rd_UEINTX s) b then Done () [] hw else loop_until_bit_is_set_UEINTX b hw)"

section \<open>\<open>usb.h\<close>: the request record and the protocol constants\<close>

text \<open>
  Modelled from the spec: the header \<open>usb.h\<close> (the \<open>usb_header\<close> and descriptor
  struct declarations, the \<open>usb_req_*\<close>, \<open>usb_desc_*\<close>, \<open>USB_REQ_TYPE_*\<close> and
  \<open>FTDI_SIO_*\<close> constants) is not among the sources. The spec gives the request record
  (section 3) and says the descriptors mirror the standard USB descriptor layout and
  the requests are those of standard USB 1.1 control transfers; the values below are
  the ones that standard fixes (chapter 9: request codes, descriptor types, the bits of
  bmRequestType) and the request codes of the FTDI SIO protocol the device emulates.
\<close>

record usb_header =
  bmReqType :: byte
  bReq :: byte
  wValue :: word16
  wIndex :: word16
  wLength :: word16

definition usb_req_get_status :: byte where "usb_req_get_status = 0"
definition usb_req_clear_feature :: byte where "usb_req_clear_feature = 1"
definition usb_req_set_feature :: byte where "usb_req_set_feature = 3"
definition usb_req_set_address :: byte where "usb_req_set_address = 5"
definition usb_req_get_desc :: byte where "usb_req_get_desc = 6"
definition usb_req_set_desc :: byte where "usb_req_set_desc = 7"
definition usb_req_get_config :: byte where "usb_req_get_config = 8"
definition usb_req_set_config :: byte where "usb_req_set_config = 9"
definition usb_req_get_iface :: byte where "usb_req_get_iface = 10"
definition usb_req_set_iface :: byte where "usb_req_set_iface = 11"
definition usb_req_synch_frame :: byte where "usb_req_synch_frame = 12"

definition usb_desc_device :: byte where "usb_desc_device = 1"
definition usb_desc_config :: byte where "usb_desc_config = 2"
definition usb_desc_string :: byte where "usb_desc_string = 3"
definition usb_desc_iface :: byte where "usb_desc_iface = 4"
definition usb_desc_EP :: byte where "usb_desc_EP = 5"

definition USB_REQ_TYPE_OUT :: byte where "USB_REQ_TYPE_OUT = 0x00"
definition USB_REQ_TYPE_IN :: byte where "USB_REQ_TYPE_IN = 0x80"
definition USB_REQ_TYPE_VENDOR :: byte where "USB_REQ_TYPE_VENDOR = 0x40"
definition USB_REQ_TYPE_INTERFACE :: byte where "USB_REQ_TYPE_INTERFACE = 0x01"
definition USB_REQ_TYPE_ENDPOINT :: byte where "USB_REQ_TYPE_ENDPOINT = 0x02"
definition ReqType_DirD2H :: byte where "ReqType_DirD2H = 0x80"

definition FTDI_SIO_RESET :: byte where "FTDI_SIO_RESET = 0"
definition FTDI_SIO_MODEM_CTRL :: byte where "FTDI_SIO_MODEM_CTRL = 1"
definition FTDI_SIO_SET_FLOW_CTRL :: byte where "FTDI_SIO_SET_FLOW_CTRL = 2"
definition FTDI_SIO_SET_BAUD_RATE :: byte where "FTDI_SIO_SET_BAUD_RATE = 3"
definition FTDI_SIO_SET_DATA :: byte where "FTDI_SIO_SET_DATA = 4"
definition FTDI_SIO_GET_MODEM_STATUS :: byte where "FTDI_SIO_GET_MODEM_STATUS = 5"
definition FTDI_SIO_SET_LATENCY_TIMER :: byte where "FTDI_SIO_SET_LATENCY_TIMER = 9"
definition FTDI_SIO_GET_LATENCY_TIMER :: byte where "FTDI_SIO_GET_LATENCY_TIMER = 10"
definition FTDI_SIO_READ_EEPROM :: byte where "FTDI_SIO_READ_EEPROM = 0x90"

section \<open>The device state\<close>

text \<open>The file-scope variables of \<open>avr_ftdi.cpp\<close> that the USB code reads and writes.\<close>

record device =
  head :: usb_header
  USB_config :: byte
  do_send_famous_message :: bool
  do_send_char :: bool
  usb_char :: byte

text \<open>Their initialisers: the state at power-on.\<close>

definition power_on :: device where
  "power_on = \<lparr> head = \<lparr> bmReqType = 0, bReq = 0, wValue = 0, wIndex = 0, wLength = 0 \<rparr>,
                USB_config = 0, do_send_famous_message = False, do_send_char = False,
                usb_char = 0 \<rparr>"

section \<open>The descriptors in flash\<close>

text \<open>
  Modelled from the spec: the struct declarations of \<open>usb.h\<close> are not among the
  sources. The fields below are those of the standard USB descriptors, in the order in
  which the initialisers of the source fill them; the AVR has no alignment padding and
  is little-endian, so the flash image of a struct is its fields in order, 16-bit
  fields low byte first.
\<close>

definition le16 :: "word16 \<Rightarrow> byte list" where
  "le16 w = [ucast w, ucast (drop_bit 8 w)]"

record usb_std_device_desc =
  dev_bLength :: byte
  dev_bDescType :: byte
  dev_bcdUSB :: word16
  dev_bDevClass :: byte
  dev_bDevSubClass :: byte
  dev_bDevProtocol :: byte
  dev_bMaxPacketSize :: byte
  dev_idVendor :: word16
  dev_idProduct :: word16
  dev_bcdDevice :: word16
  dev_iManufacturer :: byte
  dev_iProduct :: byte
  dev_iSerialNumber :: byte
  dev_bNumConfigurations :: byte

definition device_desc_image :: "usb_std_device_desc \<Rightarrow> byte list" where
  "device_desc_image x =
     [dev_bLength x, dev_bDescType x] @ le16 (dev_bcdUSB x) @
     [dev_bDevClass x, dev_bDevSubClass x, dev_bDevProtocol x, dev_bMaxPacketSize x] @
     le16 (dev_idVendor x) @ le16 (dev_idProduct x) @ le16 (dev_bcdDevice x) @
     [dev_iManufacturer x, dev_iProduct x, dev_iSerialNumber x, dev_bNumConfigurations x]"

record usb_std_config_desc =
  cfg_bLength :: byte
  cfg_bDescType :: byte
  cfg_wTotalLength :: word16
  cfg_bNumInterfaces :: byte
  cfg_bConfigurationValue :: byte
  cfg_iConfiguration :: byte
  cfg_bmAttributes :: byte
  cfg_bMaxPower :: byte

definition config_desc_image :: "usb_std_config_desc \<Rightarrow> byte list" where
  "config_desc_image x =
     [cfg_bLength x, cfg_bDescType x] @ le16 (cfg_wTotalLength x) @
     [cfg_bNumInterfaces x, cfg_bConfigurationValue x, cfg_iConfiguration x,
      cfg_bmAttributes x, cfg_bMaxPower x]"

record usb_std_iface_desc =
  if_bLength :: byte
  if_bDescType :: byte
  if_bInterfaceNumber :: byte
  if_bAlternateSetting :: byte
  if_bNumEndpoints :: byte
  if_bInterfaceClass :: byte
  if_bInterfaceSubClass :: byte
  if_bInterfaceProtocol :: byte
  if_iInterface :: byte

definition iface_desc_image :: "usb_std_iface_desc \<Rightarrow> byte list" where
  "iface_desc_image x =
     [if_bLength x, if_bDescType x, if_bInterfaceNumber x, if_bAlternateSetting x,
      if_bNumEndpoints x, if_bInterfaceClass x, if_bInterfaceSubClass x,
      if_bInterfaceProtocol x, if_iInterface x]"

record usb_std_EP_desc =
  ep_bLength :: byte
  ep_bDescType :: byte
  ep_bEndpointAddress :: byte
  ep_bmAttributes :: byte
  ep_wMaxPacketSize :: word16
  ep_bInterval :: byte

definition EP_desc_image :: "usb_std_EP_desc \<Rightarrow> byte list" where
  "EP_desc_image x =
     [ep_bLength x, ep_bDescType x, ep_bEndpointAddress x, ep_bmAttributes x] @
     le16 (ep_wMaxPacketSize x) @ [ep_bInterval x]"

text \<open>
  A string descriptor: length, type, and an array of \<open>wchar_t\<close> (16 bits on the AVR).
  \<open>wide_literal s z\<close> is the array of the literal \<open>L"s\\0...\\0"\<close> with \<open>z\<close>
  written-out \<open>\\0\<close>: the characters, the written zeros, and the terminating zero the
  compiler appends.
\<close>

record usb_std_string_desc =
  str_bLength :: byte
  str_bDescType :: byte
  str_bString :: "word16 list"

definition string_desc_image :: "usb_std_string_desc \<Rightarrow> byte list" where
  "string_desc_image x = [str_bLength x, str_bDescType x] @ concat (map le16 (str_bString x))"

definition wide_literal :: "string \<Rightarrow> nat \<Rightarrow> word16 list" where
  "wide_literal s z = map of_char s @ replicate z 0 @ [0]"

definition sizeof_wide :: "word16 list \<Rightarrow> nat" where
  "sizeof_wide ws = 2 * length ws"

definition devdesc :: usb_std_device_desc where
  "devdesc = \<lparr> dev_bLength = 18, dev_bDescType = usb_desc_device, dev_bcdUSB = 0x0110,
      dev_bDevClass = 0x00, dev_bDevSubClass = 0x00, dev_bDevProtocol = 0x00,
      dev_bMaxPacketSize = EP0_SIZE, dev_idVendor = 0x0403, dev_idProduct = 0x6001,
      dev_bcdDevice = 0x0400, dev_iManufacturer = 1, dev_iProduct = 2,
      dev_iSerialNumber = 0, dev_bNumConfigurations = 1 \<rparr>"

record tdevconf =
  conf :: usb_std_config_desc
  iface :: usb_std_iface_desc
  ep1 :: usb_std_EP_desc
  ep2 :: usb_std_EP_desc

definition tdevconf_image :: "tdevconf \<Rightarrow> byte list" where
  "tdevconf_image x =
     config_desc_image (conf x) @ iface_desc_image (iface x) @
     EP_desc_image (ep1 x) @ EP_desc_image (ep2 x)"

definition devconf :: tdevconf where
  "devconf = \<lparr>
     conf = \<lparr> cfg_bLength = 9, cfg_bDescType = usb_desc_config, cfg_wTotalLength = 32,
       cfg_bNumInterfaces = 1, cfg_bConfigurationValue = 1, cfg_iConfiguration = 0,
       cfg_bmAttributes = 0x80, cfg_bMaxPower = 10 \<rparr>,
     iface = \<lparr> if_bLength = 9, if_bDescType = usb_desc_iface, if_bInterfaceNumber = 0,
       if_bAlternateSetting = 0, if_bNumEndpoints = 2, if_bInterfaceClass = 0xff,
       if_bInterfaceSubClass = 0xff, if_bInterfaceProtocol = 0xff, if_iInterface = 0 \<rparr>,
     ep1 = \<lparr> ep_bLength = 7, ep_bDescType = usb_desc_EP, ep_bEndpointAddress = 0x81,
       ep_bmAttributes = 0x02, ep_wMaxPacketSize = 0x0040, ep_bInterval = 0 \<rparr>,
     ep2 = \<lparr> ep_bLength = 7, ep_bDescType = usb_desc_EP, ep_bEndpointAddress = 0x02,
       ep_bmAttributes = 0x02, ep_wMaxPacketSize = 0x0040, ep_bInterval = 0 \<rparr> \<rparr>"

definition iLang :: usb_std_string_desc where
  "iLang = \<lparr> str_bLength = 4, str_bDescType = usb_desc_string,
             str_bString = [0x0409, 0] \<rparr>"

text \<open>\<open>DESCSTR(STR)\<close>: the length byte is \<open>2 + sizeof(STR) - 2\<close>.\<close>

definition DESCSTR :: "word16 list \<Rightarrow> usb_std_string_desc" where
  "DESCSTR S = \<lparr> str_bLength = of_nat (2 + sizeof_wide S - 2),
                 str_bDescType = usb_desc_string, str_bString = S \<rparr>"

definition iProd :: usb_std_string_desc where
  "iProd = DESCSTR (wide_literal ''QuartelRCBB'' 2)"

definition iSerial :: usb_std_string_desc where
  "iSerial = DESCSTR (wide_literal ''FTP1W65N'' 2)"

text \<open>The 15 bytes of \<open>PSTR("Hello world!\\r\\n")\<close>: the text, CR, LF and the final NUL.\<close>

definition famous_message :: "byte list" where
  "famous_message = map of_char ''Hello world!'' @ [0x0D, 0x0A, 0x00]"

section \<open>Writing flash data to an endpoint\<close>

text \<open>
  A flash pointer \<open>addr\<close> is the list of the bytes of its object from that address on.
  \<open>pgm_write addr n\<close> is \<open>n\<close> rounds of
  \<^verbatim>\<open>val = pgm_read_byte(addr); UEDATX = val; addr++;\<close>: the events, and the advanced
  pointer (\<open>None\<close> once a read has left the object).
\<close>

fun pgm_write :: "byte list \<Rightarrow> nat \<Rightarrow> event list \<times> byte list option" where
  "pgm_write addr 0 = ([], Some addr)"
| "pgm_write [] (Suc n) = ([], None)"
| "pgm_write (val # addr) (Suc n) =
     (case pgm_write addr n of (evs, r) \<Rightarrow> (Write UEDATX val # evs, r))"

text \<open>\<open>bulk_write_PM\<close>: \<^verbatim>\<open>while(len--) { ... }\<close> runs \<open>len\<close> rounds.\<close>

definition bulk_write_PM :: "byte list \<Rightarrow> word16 \<Rightarrow> snapshot list \<Rightarrow> unit res" where
  "bulk_write_PM addr len hw =
     (case pgm_write addr (unat len) of
        (evs, None) \<Rightarrow> Overread evs
      | (evs, Some addr') \<Rightarrow> Done () evs hw)"

text \<open>
  The function the source calls when an internal check fails: with a false first
  argument it prints its marker and the text \<open>v\<close>, then spins in \<open>while (1)\<close>.
\<close>

definition fatal_spin :: "string \<Rightarrow> 'a res" where
  "fatal_spin v = Halted [Printf_P (''oo'' @ ''ps! '' @ v)]"

text \<open>
  \<open>ctrl_write_PM\<close>. Each round of \<^verbatim>\<open>while(len)\<close> reads \<open>UEBCLX\<close> and \<open>UEINTX\<close>
  once (one snapshot). The result is the returned byte: 1 when a new SETUP aborted the
  transfer, 0 otherwise.
\<close>

fun ctrl_write_PM :: "byte list \<Rightarrow> word16 \<Rightarrow> snapshot list \<Rightarrow> byte res" where
  "ctrl_write_PM addr len [] = (if len = 0 then Done 0 [] [] else Starved [])"
| "ctrl_write_PM addr len (s # hw) =
     (if len = 0 then Done 0 [] (s # hw)
      else
        let bsize = rd_UEBCLX s; epintreg = rd_UEINTX s in
        if \<not> (EP0_SIZE \<ge> bsize) then fatal_spin ''EP''
        else
          let ntx0 = EP0_SIZE - bsize;
              ntx = (if (ucast ntx0 :: word16) > len then ucast len else ntx0)
          in
          if bit epintreg RXSTPI then Done 1 [] hw
          else if bit epintreg RXOUTI then Done 0 [] hw
          else if \<not> bit epintreg TXINI then ctrl_write_PM addr len hw
          else if \<not> (ntx > 0) then fatal_spin ''Ep''
          else
            (case pgm_write addr (unat ntx) of
               (evs, None) \<Rightarrow> Overread evs
             | (evs, Some addr') \<Rightarrow>
                 emit (evs @ [Clear_bit UEINTX TXINI])
                   (ctrl_write_PM addr' (len - ucast ntx) hw)))"

section \<open>Standard requests\<close>

text \<open>
  The \<open>switch\<close> of \<open>USB_get_desc\<close>: the flash object and the length it selects, or
  \<open>None\<close> where the function returns 0. \<open>idx\<close> is \<open>wValue\<close> cut to 8 bits; for a
  string descriptor the length is the first byte of the object.
\<close>

definition USB_get_desc_switch :: "usb_header \<Rightarrow> (byte list \<times> byte) option" where
  "USB_get_desc_switch h =
     (let idx = (ucast (wValue h) :: byte); ty = drop_bit 8 (wValue h) in
      if ty = ucast usb_desc_device then
        (if idx \<noteq> 0 then None
         else Some (device_desc_image devdesc, of_nat (length (device_desc_image devdesc))))
      else if ty = ucast usb_desc_config then
        (if idx \<noteq> 0 then None
         else Some (tdevconf_image devconf, of_nat (length (tdevconf_image devconf))))
      else if ty = ucast usb_desc_string then
        (if idx = 0 then Some (string_desc_image iLang, hd (string_desc_image iLang))
         else if idx = 1 then Some (string_desc_image iProd, hd (string_desc_image iProd))
         else if idx = 2 then Some (string_desc_image iSerial, hd (string_desc_image iSerial))
         else None)
      else None)"

definition USB_get_desc :: "usb_header \<Rightarrow> snapshot list \<Rightarrow> byte res" where
  "USB_get_desc h hw =
     (case USB_get_desc_switch h of
        None \<Rightarrow> Done 0 [] hw
      | Some (addr, len0) \<Rightarrow>
          let len = (if (ucast len0 :: word16) > wLength h then ucast (wLength h) else len0) in
          bind_res (ctrl_write_PM addr (ucast len) hw)
            (\<lambda>r hw'. Done (if r = 0 then 1 else 0) [] hw'))"

definition USB_set_address :: "usb_header \<Rightarrow> snapshot list \<Rightarrow> unit res" where
  "USB_set_address h hw =
     emit [Write UDADDR (ucast (wValue h AND 0x7f)), Clear_bit UEINTX TXINI]
       (bind_res (loop_until_bit_is_set_UEINTX TXINI hw)
          (\<lambda>_ hw'. Done ()
             [Write UDADDR (push_bit ADDEN 1 OR ucast (wValue h AND 0x7f)),
              Clear_bit UEINTX TXINI] hw'))"

text \<open>
  \<open>setup_other_ep\<close>: each endpoint is configured and its \<open>CFGOK\<close> flag tested once
  (one snapshot each); a clear flag ends in \<open>while(1)\<close>. \<open>putchar('1!')\<close> sends the low
  byte of the two-character constant.
\<close>

definition configure_EP :: "byte \<Rightarrow> byte \<Rightarrow> event list" where
  "configure_EP n cfg0 =
     EP_select n @
     [Clear_bit UECONX EPEN, Clear_bit UECFG1X ALLOC, Set_bit UECONX EPEN,
      Write UECFG0X cfg0, Write UECFG1X 0x32]"

definition setup_other_ep :: "snapshot list \<Rightarrow> unit res" where
  "setup_other_ep hw =
     emit (configure_EP 1 0x81)
       (case hw of
          [] \<Rightarrow> Starved []
        | s1 # hw1 \<Rightarrow>
            if \<not> bit (rd_UESTA0X s1) CFGOK then Halted [Putchar CHR ''!'']
            else
              emit (configure_EP 2 0x80)
                (case hw1 of
                   [] \<Rightarrow> Starved []
                 | s2 # hw2 \<Rightarrow>
                     if \<not> bit (rd_UESTA0X s2) CFGOK then Halted [Putchar CHR ''!'']
                     else Done () (EP_select 0) hw2))"

definition USB_set_config :: "device \<Rightarrow> snapshot list \<Rightarrow> device res" where
  "USB_set_config d hw =
     bind_res (setup_other_ep hw)
       (\<lambda>_ hw'. Done (d\<lparr>USB_config := ucast (wValue (head d))\<rparr>) [] hw')"

definition dump_unsupported_request :: "usb_header \<Rightarrow> event list" where
  "dump_unsupported_request h =
     [Putchar CHR ''?'', Put_hex (ucast (bmReqType h)), Put_hex (ucast (bReq h)),
      Put_hex (drop_bit 8 (wLength h)), Put_hex (wLength h)]"

section \<open>Control transfers\<close>

text \<open>
  The wait for the status stage of a control read:
  \<^verbatim>\<open>while(!((sts=UEINTX)&(_BV(RXSTPI)|_BV(RXOUTI)))) {}\<close>; the result is \<open>sts\<close>.
\<close>

fun wait_status :: "snapshot list \<Rightarrow> byte res" where
  "wait_status [] = Starved []"
| "wait_status (s # hw) =
     (if bit (rd_UEINTX s) RXSTPI \<or> bit (rd_UEINTX s) RXOUTI then Done (rd_UEINTX s) [] hw
      else wait_status hw)"

text \<open>
  The last block of \<open>usb_control_in\<close> and of \<open>usb_control_out\<close> (the same text in
  both): complete the transfer when \<open>ok\<close> is set, request a stall otherwise.
\<close>

definition control_status :: "byte \<Rightarrow> usb_header \<Rightarrow> snapshot list \<Rightarrow> unit res" where
  "control_status ok h hw =
     (if ok \<noteq> 0 then
        (if bmReqType h AND ReqType_DirD2H \<noteq> 0 then
           bind_res (wait_status hw)
             (\<lambda>sts hw'.
                if \<not> bit sts RXOUTI
                then Done () [Set_bit UECONX STALLRQ, Putchar CHR ''S'', Putchar CHR ''C''] hw'
                else Done () [Clear_bit UEINTX RXOUTI, Clear_bit UEINTX TXINI, Putchar CHR ''C''] hw')
         else Done () [Clear_bit UEINTX TXINI, Putchar CHR ''C''] hw)
      else Done () [Set_bit UECONX STALLRQ, Putchar CHR ''F''] hw)"

text \<open>
  \<open>usb_control_in\<close> from its vendor block on: \<open>ok\<close> is what the first \<open>switch\<close> left.
\<close>

definition usb_control_in_vendor :: "byte \<Rightarrow> device \<Rightarrow> snapshot list \<Rightarrow> device res" where
  "usb_control_in_vendor ok d hw =
     (let h = head d in
      bind_res
        (if bmReqType h = (USB_REQ_TYPE_IN OR USB_REQ_TYPE_VENDOR) then
           (if bReq h = FTDI_SIO_READ_EEPROM then
              bind_res (loop_until_bit_is_set_UEINTX TXINI hw)
                (\<lambda>_ hw'. Done 1 (EP_write8 0xff @ EP_write8 0xff @ [Clear_bit UEINTX TXINI]) hw')
            else if bReq h = FTDI_SIO_GET_LATENCY_TIMER then
              bind_res (loop_until_bit_is_set_UEINTX TXINI hw)
                (\<lambda>_ hw'. Done 1 (EP_write8 0x10 @ [Clear_bit UEINTX TXINI]) hw')
            else if bReq h = FTDI_SIO_GET_MODEM_STATUS then
              bind_res (loop_until_bit_is_set_UEINTX TXINI hw)
                (\<lambda>_ hw'. Done 1 (EP_write8 0x00 @ [Clear_bit UEINTX TXINI]) hw')
            else Done ok (dump_unsupported_request h) hw)
         else Done ok [] hw)
        (\<lambda>ok' hw'. bind_res (control_status ok' h hw') (\<lambda>_ hw''. Done d [] hw'')))"

definition usb_control_in :: "device \<Rightarrow> snapshot list \<Rightarrow> device res" where
  "usb_control_in d hw =
     (let h = head d in
      if bReq h = usb_req_set_feature \<or> bReq h = usb_req_clear_feature then
        usb_control_in_vendor 1 d hw
      else if bReq h = usb_req_get_status then
        (if bmReqType h = USB_REQ_TYPE_IN
            \<or> bmReqType h = (USB_REQ_TYPE_IN OR USB_REQ_TYPE_INTERFACE)
            \<or> bmReqType h = (USB_REQ_TYPE_IN OR USB_REQ_TYPE_ENDPOINT) then
           bind_res (loop_until_bit_is_set_UEINTX TXINI hw)
             (\<lambda>_ hw'. emit (EP_write16_le 0 @ [Clear_bit UEINTX TXINI])
                         (usb_control_in_vendor 1 d hw'))
         else usb_control_in_vendor 0 d hw)
      else if bReq h = usb_req_set_address then usb_control_in_vendor 0 d hw
      else if bReq h = usb_req_get_desc then
        (if bmReqType h = 0x80 then
           bind_res (USB_get_desc h hw) (\<lambda>ok hw'. usb_control_in_vendor ok d hw')
         else usb_control_in_vendor 0 d hw)
      else if bReq h = usb_req_set_config then
        (if bmReqType h = 0 then
           usb_control_in_vendor 1 (d\<lparr>USB_config := ucast (wValue h)\<rparr>) hw
         else usb_control_in_vendor 0 d hw)
      else if bReq h = usb_req_get_config then
        (if bmReqType h = USB_REQ_TYPE_IN then
           bind_res (loop_until_bit_is_set_UEINTX TXINI hw)
             (\<lambda>_ hw'. emit (EP_write8 (USB_config d) @ [Clear_bit UEINTX TXINI])
                         (usb_control_in_vendor 1 d hw'))
         else usb_control_in_vendor 0 d hw)
      else if bReq h = usb_req_set_iface \<or> bReq h = usb_req_get_iface
              \<or> bReq h = usb_req_set_desc \<or> bReq h = usb_req_synch_frame then
        usb_control_in_vendor 0 d hw
      else if bmReqType h AND USB_REQ_TYPE_VENDOR = 0 then
        emit (dump_unsupported_request h) (usb_control_in_vendor 0 d hw)
      else usb_control_in_vendor 0 d hw)"

text \<open>\<open>usb_control_out\<close> from its vendor block on.\<close>

definition usb_control_out_vendor :: "byte \<Rightarrow> device \<Rightarrow> snapshot list \<Rightarrow> device res" where
  "usb_control_out_vendor ok d hw =
     (let h = head d in
      bind_res
        (if bmReqType h = (USB_REQ_TYPE_OUT OR USB_REQ_TYPE_VENDOR) then
           (if bReq h = FTDI_SIO_RESET then Done 1 [] hw
            else if bReq h = FTDI_SIO_MODEM_CTRL \<or> bReq h = FTDI_SIO_SET_BAUD_RATE
                    \<or> bReq h = FTDI_SIO_SET_DATA \<or> bReq h = FTDI_SIO_SET_FLOW_CTRL
                    \<or> bReq h = FTDI_SIO_SET_LATENCY_TIMER then Done 1 [] hw
            else Done ok (dump_unsupported_request h) hw)
         else Done ok [] hw)
        (\<lambda>ok' hw'. bind_res (control_status ok' h hw') (\<lambda>_ hw''. Done d [] hw'')))"

definition usb_control_out :: "device \<Rightarrow> snapshot list \<Rightarrow> device res" where
  "usb_control_out d hw =
     (let h = head d in
      if bReq h = usb_req_set_feature \<or> bReq h = usb_req_clear_feature then
        usb_control_out_vendor 1 d hw
      else if bReq h = usb_req_get_status then usb_control_out_vendor 0 d hw
      else if bReq h = usb_req_set_address then
        (if bmReqType h = USB_REQ_TYPE_OUT then
           emit [Putchar CHR ''A'']
             (bind_res (USB_set_address h hw) (\<lambda>_ hw'. Done d [Putchar CHR ''a''] hw'))
         else usb_control_out_vendor 0 d hw)
      else if bReq h = usb_req_get_desc then usb_control_out_vendor 0 d hw
      else if bReq h = usb_req_set_config then
        (if bmReqType h = 0 then
           emit [Putchar CHR ''S'']
             (bind_res (USB_set_config d hw)
                (\<lambda>d' hw'. emit [Putchar CHR ''s''] (usb_control_out_vendor 1 d' hw')))
         else usb_control_out_vendor 0 d hw)
      else if bReq h = usb_req_get_config \<or> bReq h = usb_req_set_iface
              \<or> bReq h = usb_req_get_iface \<or> bReq h = usb_req_set_desc
              \<or> bReq h = usb_req_synch_frame then
        usb_control_out_vendor 0 d hw
      else if bmReqType h AND USB_REQ_TYPE_VENDOR = 0 then
        emit (dump_unsupported_request h) (usb_control_out_vendor 0 d hw)
      else usb_control_out_vendor 0 d hw)"

text \<open>
  \<open>handle_CONTROL\<close>: the eight bytes of the SETUP packet are read from the FIFO (one
  snapshot), the SETUP flag is acknowledged, and the direction bit picks the handler.
\<close>

definition handle_CONTROL :: "device \<Rightarrow> snapshot list \<Rightarrow> device res" where
  "handle_CONTROL d hw =
     (case hw of
        [] \<Rightarrow> Starved []
      | s # hw' \<Rightarrow>
          let f = rd_UEDATX s;
              h = \<lparr> bmReqType = f 0, bReq = f 1, wValue = EP_read16_le (f 2) (f 3),
                    wIndex = EP_read16_le (f 4) (f 5), wLength = EP_read16_le (f 6) (f 7) \<rparr>;
              d' = d\<lparr>head := h\<rparr>
          in emit [Clear_bit UEINTX RXSTPI]
               (if bmReqType h AND USB_REQ_TYPE_IN \<noteq> 0 then usb_control_in d' hw'
                else usb_control_out d' hw'))"

section \<open>The bulk data relay\<close>

definition send_reserved_bytes :: "event list" where
  "send_reserved_bytes = [Write UEDATX 0x80, Write UEDATX 0x00]"

text \<open>
  \<open>handle_outgoing_bytes\<close>: the pending flag is cleared first, then \<open>TXINI\<close> is tested
  (one snapshot, only when a flag was pending).
\<close>

definition handle_outgoing_bytes :: "device \<Rightarrow> snapshot list \<Rightarrow> device res" where
  "handle_outgoing_bytes d hw =
     emit (EP_select 1)
       (if do_send_famous_message d then
          (let d' = d\<lparr>do_send_famous_message := False\<rparr> in
           case hw of
             [] \<Rightarrow> Starved []
           | s # hw' \<Rightarrow>
               if bit (rd_UEINTX s) TXINI then
                 emit (Clear_bit UEINTX TXINI # send_reserved_bytes)
                   (bind_res (bulk_write_PM famous_message 14 hw')
                      (\<lambda>_ hw''. Done d' [Clear_bit UEINTX FIFOCON] hw''))
               else Done d' [] hw')
        else if do_send_char d then
          (let d' = d\<lparr>do_send_char := False\<rparr> in
           case hw of
             [] \<Rightarrow> Starved []
           | s # hw' \<Rightarrow>
               if bit (rd_UEINTX s) TXINI then
                 Done d' (Clear_bit UEINTX TXINI # send_reserved_bytes @
                          [Write UEDATX (usb_char d'), Clear_bit UEINTX FIFOCON]) hw'
               else Done d' [] hw')
        else Done d [] hw)"

text \<open>
  The \<open>for\<close> loop of \<open>handle_incoming_bytes\<close>: \<open>n\<close> rounds are left, \<open>i\<close> reads of
  the FIFO have been made; the byte \<open>'a'\<close> is \<open>0x61\<close>.
\<close>

primrec read_chars :: "nat \<Rightarrow> (nat \<Rightarrow> byte) \<Rightarrow> nat \<Rightarrow> device \<Rightarrow> device" where
  "read_chars 0 fifo i d = d"
| "read_chars (Suc n) fifo i d =
     read_chars n fifo (Suc i)
       (let d' = d\<lparr>usb_char := fifo i\<rparr> in
        if usb_char d' = 0x61 then d'\<lparr>do_send_famous_message := True\<rparr>
        else d'\<lparr>do_send_char := True\<rparr>)"

text \<open>
  \<open>handle_incoming_bytes\<close>: one snapshot of endpoint 2 gives the \<open>RXOUTI\<close> flag, the
  byte count and the FIFO contents.
\<close>

definition handle_incoming_bytes :: "device \<Rightarrow> snapshot list \<Rightarrow> device res" where
  "handle_incoming_bytes d hw =
     emit (EP_select 2)
       (case hw of
          [] \<Rightarrow> Starved []
        | s # hw' \<Rightarrow>
            if bit (rd_UEINTX s) RXOUTI then
              (let N = (push_bit 8 (ucast (rd_UEBCHX s)) OR ucast (rd_UEBCLX s) :: word16) in
               Done (if N > 0 then read_chars (unat N) (rd_UEDATX s) 0 d else d)
                 [Clear_bit UEINTX RXOUTI, Clear_bit UEINTX FIFOCON] hw')
            else Done d [] hw')"

text \<open>
  The USB part of one round of the main loop: the control endpoint is served when it
  shows a SETUP packet (one snapshot for the test), then the relay runs, inbound before
  outbound. \<open>main_loop n\<close> is \<open>n\<close> rounds of the endless loop.
\<close>

definition relay_step :: "device \<Rightarrow> snapshot list \<Rightarrow> device res" where
  "relay_step d hw = bind_res (handle_incoming_bytes d hw) handle_outgoing_bytes"

definition main_loop_body :: "device \<Rightarrow> snapshot list \<Rightarrow> device res" where
  "main_loop_body d hw =
     emit (EP_select 0)
       (case hw of
          [] \<Rightarrow> Starved []
        | s # hw' \<Rightarrow>
            bind_res (if bit (rd_UEINTX s) RXSTPI then handle_CONTROL d hw' else Done d [] hw')
              relay_step)"

primrec main_loop :: "nat \<Rightarrow> device \<Rightarrow> snapshot list \<Rightarrow> device res" where
  "main_loop 0 d hw = Done d [] hw"
| "main_loop (Suc n) d hw = bind_res (main_loop_body d hw) (main_loop n)"

section \<open>Hardware behaviour and sample inputs used in the statements\<close>



text \<open>
  \<open>snap u n f\<close>: the selected endpoint shows \<open>UEINTX = u\<close>, a byte count of \<open>n\<close>,
  \<open>CFGOK\<close> set and the FIFO contents \<open>f\<close>. \<open>request t r v l\<close>: a SETUP packet.
\<close>

definition snap :: "byte \<Rightarrow> byte \<Rightarrow> (nat \<Rightarrow> byte) \<Rightarrow> snapshot" where
  "snap u n f = \<lparr> rd_UEINTX = u, rd_UEBCLX = n, rd_UEBCHX = 0, rd_UESTA0X = 0x80, rd_UEDATX = f \<rparr>"

definition request :: "byte \<Rightarrow> byte \<Rightarrow> word16 \<Rightarrow> word16 \<Rightarrow> usb_header" where
  "request t r v l = \<lparr> bmReqType = t, bReq = r, wValue = v, wIndex = 0, wLength = l \<rparr>"

text \<open>
  What the last block of a handler writes once the wait for the status stage of a
  control read has returned \<open>sts\<close>: the acknowledgement when the host sent its OUT
  status, the stall request when a new SETUP arrived instead.
\<close>

definition status_stage :: "byte \<Rightarrow> event list" where
  "status_stage sts =
     (if bit sts RXOUTI
      then [Clear_bit UEINTX RXOUTI, Clear_bit UEINTX TXINI, Putchar CHR ''C'']
      else [Set_bit UECONX STALLRQ, Putchar CHR ''S'', Putchar CHR ''C''])"

text \<open>\<open>n\<close> outbound polls in a row, with no inbound data between them.\<close>

primrec outgoing_polls :: "nat \<Rightarrow> device \<Rightarrow> snapshot list \<Rightarrow> device res" where
  "outgoing_polls 0 d hw = Done d [] hw"
| "outgoing_polls (Suc n) d hw = bind_res (handle_outgoing_bytes d hw) (outgoing_polls n)"

section \<open>Basic facts\<close>

named_theorems io_h \<open>bit numbers of avr/io.h\<close>

lemmas io_bits [io_h] =
  TXINI_def RXOUTI_def RXSTPI_def FIFOCON_def EPEN_def STALLRQ_def ALLOC_def CFGOK_def
  ADDEN_def

named_theorems usb_h \<open>constants of usb.h\<close>

lemmas usb_consts [usb_h] =
  usb_req_get_status_def usb_req_clear_feature_def usb_req_set_feature_def
  usb_req_set_address_def usb_req_get_desc_def usb_req_set_desc_def
  usb_req_get_config_def usb_req_set_config_def usb_req_get_iface_def
  usb_req_set_iface_def usb_req_synch_frame_def
  usb_desc_device_def usb_desc_config_def usb_desc_string_def usb_desc_iface_def
  usb_desc_EP_def
  USB_REQ_TYPE_OUT_def USB_REQ_TYPE_IN_def USB_REQ_TYPE_VENDOR_def
  USB_REQ_TYPE_INTERFACE_def USB_REQ_TYPE_ENDPOINT_def ReqType_DirD2H_def
  FTDI_SIO_RESET_def FTDI_SIO_MODEM_CTRL_def FTDI_SIO_SET_FLOW_CTRL_def
  FTDI_SIO_SET_BAUD_RATE_def FTDI_SIO_SET_DATA_def FTDI_SIO_GET_MODEM_STATUS_def
  FTDI_SIO_SET_LATENCY_TIMER_def FTDI_SIO_GET_LATENCY_TIMER_def FTDI_SIO_READ_EEPROM_def

lemma emit_Nil [simp]: "emit [] r = r"
  by (cases r) simp_all

lemma emit_emit [simp]: "emit a (emit b r) = emit (a @ b) r"
  by (cases r) simp_all

lemma events_of_emit [simp]: "events_of (emit es r) = es @ events_of r"
  by (cases r) simp_all

lemma returns_emit [simp]: "returns (emit es r) = returns r"
  by (cases r) simp_all

lemma result_of_emit [simp]: "result_of (emit es r) = result_of r"
  by (cases r) simp_all

lemma tx_data_append [simp]: "tx_data (xs @ ys) = tx_data xs @ tx_data ys"
  by (induction xs) (simp_all split: event.splits)

lemma tx_data_map_Write [simp]: "tx_data (map (Write UEDATX) bs) = bs"
  by (induction bs) simp_all

lemma bind_res_Done_iff:
  "bind_res m f = Done b evs hw \<longleftrightarrow>
     (\<exists>a e1 h1 e2. m = Done a e1 h1 \<and> f a h1 = Done b e2 hw \<and> evs = e1 @ e2)"
proof (cases m)
  case (Done a e1 h1)
  then show ?thesis by (cases "f a h1") auto
qed simp_all

lemma emit_Done_iff:
  "emit es r = Done b evs hw \<longleftrightarrow> (\<exists>e. r = Done b e hw \<and> evs = es @ e)"
  by (cases r) auto

lemma bind_res_emit [simp]: "bind_res (emit es m) f = emit es (bind_res m f)"
  by (cases m) simp_all

lemma bind_res_assoc [simp]:
  "bind_res (bind_res m f) g = bind_res m (\<lambda>a hw. bind_res (f a hw) g)"
  by (cases m) simp_all

lemma bind_res_if:
  "bind_res (if c then m1 else m2) f = (if c then bind_res m1 f else bind_res m2 f)"
  by simp

lemma bind_res_cong_simple: "(\<And>a hw. f a hw = g a hw) \<Longrightarrow> bind_res m f = bind_res m g"
  by (cases m) simp_all

lemma tx_data_dump [simp]: "tx_data (dump_unsupported_request h) = []"
  by (simp add: dump_unsupported_request_def)

lemma tx_data_status_stage [simp]: "tx_data (status_stage sts) = []"
  by (simp add: status_stage_def)

lemma loop_until_events [simp]: "events_of (loop_until_bit_is_set_UEINTX b hw) = []"
  by (induction hw) auto

lemma wait_status_events [simp]: "events_of (wait_status hw) = []"
  by (induction hw) auto

lemma events_of_bind:
  "events_of (bind_res m f) =
     events_of m @ (case m of Done a evs hw \<Rightarrow> events_of (f a hw) | _ \<Rightarrow> [])"
  by (cases m) simp_all

lemma returns_bind:
  "returns (bind_res m f) = (case m of Done a evs hw \<Rightarrow> returns (f a hw) | _ \<Rightarrow> False)"
  by (cases m) simp_all

lemma result_of_bind:
  "result_of (bind_res m f) = (case m of Done a evs hw \<Rightarrow> result_of (f a hw) | _ \<Rightarrow> None)"
  by (cases m) simp_all

section \<open>Unsupported requests\<close>

text \<open>
  Claim C2, as amended. The claim says that a vendor-type control-OUT request with an
  opcode outside the recognised FTDI commands is acknowledged with a zero-length
  status. In the code \<open>ok\<close> stays 0 on that path, and the final block of
  \<open>usb_control_out\<close> requests a stall. What holds: for every request whose
  bmRequestType has the vendor bit set and whose opcode is none of Reset, Modem
  Control, Set Baud Rate, Set Data, Set Flow Control and Set Latency Timer,
  \<open>usb_control_out\<close> returns at once, leaves the device state as it was, and its only
  effects are the diagnostic dump (exactly when bmRequestType is the vendor
  host-to-device byte \<open>0x40\<close>), the stall request and the character \<open>F\<close>: \<open>TXINI\<close>
  is not cleared, so no zero-length status is sent.
\<close>

theorem C2_unknown_vendor_out_is_stalled:
  assumes "bmReqType (head d) AND USB_REQ_TYPE_VENDOR \<noteq> 0"
    and "bReq (head d) \<notin> {FTDI_SIO_RESET, FTDI_SIO_MODEM_CTRL, FTDI_SIO_SET_BAUD_RATE,
           FTDI_SIO_SET_DATA, FTDI_SIO_SET_FLOW_CTRL, FTDI_SIO_SET_LATENCY_TIMER}"
  shows "usb_control_out d hw =
           Done d ((if bmReqType (head d) = (USB_REQ_TYPE_OUT OR USB_REQ_TYPE_VENDOR)
                    then dump_unsupported_request (head d) else []) @
                   [Set_bit UECONX STALLRQ, Putchar CHR ''F'']) hw"
proof -
  from assms(1) have nz: "bmReqType (head d) \<noteq> 0"
    by auto
  show ?thesis
    using assms nz
    by (simp add: usb_control_out_def usb_control_out_vendor_def control_status_def usb_h Let_def)
qed

text \<open>The theorem at a vendor request to the interface with opcode \<open>0x20\<close>.\<close>

theorem C2_unknown_vendor_out_is_stalled_witness:
  "usb_control_out (power_on\<lparr>head := request 0x41 0x20 0 0\<rparr>) [] =
     Done (power_on\<lparr>head := request 0x41 0x20 0 0\<rparr>)
       [Set_bit UECONX STALLRQ, Putchar CHR ''F''] []"
  using C2_unknown_vendor_out_is_stalled [of "power_on\<lparr>head := request 0x41 0x20 0 0\<rparr>" "[]"]
  by (simp add: request_def usb_h)

text \<open>
  The claim as stated fails: the vendor OUT request \<open>0x40\<close> with opcode 6 (no
  recognised command) ends in a stall request, and \<open>TXINI\<close> is never cleared.
\<close>

theorem C2_unknown_vendor_out_not_acknowledged:
  "events_of (usb_control_out (power_on\<lparr>head := request 0x40 6 0 0\<rparr>) []) =
     [Putchar CHR ''?'', Put_hex 0x40, Put_hex 6, Put_hex 0, Put_hex 0,
      Set_bit UECONX STALLRQ, Putchar CHR ''F'']
   \<and> Clear_bit UEINTX TXINI \<notin> set (events_of (usb_control_out (power_on\<lparr>head := request 0x40 6 0 0\<rparr>) []))
   \<and> Set_bit UECONX STALLRQ \<in> set (events_of (usb_control_out (power_on\<lparr>head := request 0x40 6 0 0\<rparr>) []))"
  by (simp add: usb_control_out_def usb_control_out_vendor_def control_status_def usb_h Let_def
       dump_unsupported_request_def power_on_def request_def)

text \<open>
  Claim C8. A request without the vendor bit whose opcode the handler of its direction
  does not implement: the handler returns at once with the device state unchanged; its
  effects are the diagnostic dump (for the opcodes the \<open>switch\<close> does not name), the
  stall request and the character \<open>F\<close>. No byte is written to the endpoint FIFO and
  \<open>TXINI\<close> is not cleared. This holds for \<open>usb_control_in\<close> (opcodes other than
  Set/Clear Feature, Get Status, Get Descriptor, Set/Get Configuration) and for
  \<open>usb_control_out\<close> (opcodes other than Set/Clear Feature, Set Address, Set
  Configuration); Set Interface, Get Interface, Set Descriptor and Synch Frame are
  among them in both.
\<close>

theorem C8_unknown_standard_request_stalls:
  assumes "bmReqType (head d) AND USB_REQ_TYPE_VENDOR = 0"
  shows "(bReq (head d) \<notin> {usb_req_set_feature, usb_req_clear_feature, usb_req_get_status,
                             usb_req_get_desc, usb_req_set_config, usb_req_get_config} \<longrightarrow>
          usb_control_in d hw =
            Done d ((if bReq (head d) \<in> {usb_req_set_address, usb_req_set_iface, usb_req_get_iface,
                                          usb_req_set_desc, usb_req_synch_frame}
                     then [] else dump_unsupported_request (head d)) @
                    [Set_bit UECONX STALLRQ, Putchar CHR ''F'']) hw
          \<and> tx_data (events_of (usb_control_in d hw)) = []
          \<and> Clear_bit UEINTX TXINI \<notin> set (events_of (usb_control_in d hw)))
       \<and> (bReq (head d) \<notin> {usb_req_set_feature, usb_req_clear_feature, usb_req_set_address,
                             usb_req_set_config} \<longrightarrow>
          usb_control_out d hw =
            Done d ((if bReq (head d) \<in> {usb_req_get_status, usb_req_get_desc, usb_req_get_config,
                                          usb_req_set_iface, usb_req_get_iface,
                                          usb_req_set_desc, usb_req_synch_frame}
                     then [] else dump_unsupported_request (head d)) @
                    [Set_bit UECONX STALLRQ, Putchar CHR ''F'']) hw
          \<and> tx_data (events_of (usb_control_out d hw)) = []
          \<and> Clear_bit UEINTX TXINI \<notin> set (events_of (usb_control_out d hw)))"
proof -
  from assms have nv: "bmReqType (head d) \<noteq> 0xC0" "bmReqType (head d) \<noteq> 0x40"
    by (auto simp: usb_h)
  show ?thesis
    using assms nv
    by (simp add: usb_control_in_def usb_control_in_vendor_def usb_control_out_def
          usb_control_out_vendor_def control_status_def usb_h Let_def
          dump_unsupported_request_def)
qed

text \<open>The theorem at Get Interface (IN, opcode 10) and Set Interface (OUT, opcode 11).\<close>

theorem C8_unknown_standard_request_stalls_witness:
  "usb_control_in (power_on\<lparr>head := request 0x81 10 0 1\<rparr>) [] =
     Done (power_on\<lparr>head := request 0x81 10 0 1\<rparr>) [Set_bit UECONX STALLRQ, Putchar CHR ''F''] []
   \<and> usb_control_out (power_on\<lparr>head := request 0x01 11 0 0\<rparr>) [] =
     Done (power_on\<lparr>head := request 0x01 11 0 0\<rparr>) [Set_bit UECONX STALLRQ, Putchar CHR ''F''] []"
  using C8_unknown_standard_request_stalls [of "power_on\<lparr>head := request 0x81 10 0 1\<rparr>" "[]"]
        C8_unknown_standard_request_stalls [of "power_on\<lparr>head := request 0x01 11 0 0\<rparr>" "[]"]
  by (simp add: request_def usb_h)

section \<open>Vendor reads and the configuration value\<close>

lemma vendor_in_shape:
  assumes "bmReqType (head d) = (USB_REQ_TYPE_IN OR USB_REQ_TYPE_VENDOR)"
    and "(bReq (head d), p) \<in> {(FTDI_SIO_READ_EEPROM, [0xff, 0xff]),
           (FTDI_SIO_GET_LATENCY_TIMER, [0x10]), (FTDI_SIO_GET_MODEM_STATUS, [0x00])}"
  shows "usb_control_in d hw =
     bind_res (loop_until_bit_is_set_UEINTX TXINI hw) (\<lambda>_ hw1.
       emit (map (Write UEDATX) p @ [Clear_bit UEINTX TXINI])
         (bind_res (wait_status hw1) (\<lambda>sts hw2. Done d (status_stage sts) hw2)))"
  using assms
  by (auto simp: usb_control_in_def usb_control_in_vendor_def usb_h Let_def EP_write8_def
        control_status_def bind_res_if status_stage_def
        intro!: bind_res_cong_simple arg_cong2[where f=emit])

text \<open>
  Claim C9. For a vendor IN request (bmRequestType \<open>0xC0\<close>) with one of the three
  recognised opcodes, with \<open>p\<close> the reply of that opcode (Read EEPROM: \<open>FF FF\<close>; Get
  Latency Timer: \<open>10\<close>; Get Modem Status: \<open>00\<close>):
  \<^item> once \<open>TXINI\<close> shows and the host then answers the status stage, the handler returns
    with the device state unchanged, having written exactly \<open>p\<close>, cleared \<open>TXINI\<close> and
    completed the status stage;
  \<^item> whenever the handler returns, the data written is \<open>p\<close> and the state is unchanged;
  \<^item> the events depend on the request and on the hardware only: any other device state
    with the same request record gives the same events.
\<close>

theorem C9_vendor_in_canned_reply:
  assumes "bmReqType (head d) = (USB_REQ_TYPE_IN OR USB_REQ_TYPE_VENDOR)"
    and "(bReq (head d), p) \<in> {(FTDI_SIO_READ_EEPROM, [0xff, 0xff]),
           (FTDI_SIO_GET_LATENCY_TIMER, [0x10]), (FTDI_SIO_GET_MODEM_STATUS, [0x00])}"
  shows "(loop_until_bit_is_set_UEINTX TXINI hw = Done () [] hw1 \<longrightarrow>
          wait_status hw1 = Done sts [] hw2 \<longrightarrow>
          usb_control_in d hw =
            Done d (map (Write UEDATX) p @ [Clear_bit UEINTX TXINI] @ status_stage sts) hw2)
       \<and> (returns (usb_control_in d hw) \<longrightarrow>
            result_of (usb_control_in d hw) = Some d \<and>
            tx_data (events_of (usb_control_in d hw)) = p)
       \<and> (head d' = head d \<longrightarrow>
            events_of (usb_control_in d' hw) = events_of (usb_control_in d hw))"
proof -
  note shape = vendor_in_shape [OF assms]
  have same: "events_of (usb_control_in d' hw) = events_of (usb_control_in d hw)"
    if h: "head d' = head d"
  proof -
    from h assms have a: "bmReqType (head d') = (USB_REQ_TYPE_IN OR USB_REQ_TYPE_VENDOR)"
      and b: "(bReq (head d'), p) \<in> {(FTDI_SIO_READ_EEPROM, [0xff, 0xff]),
           (FTDI_SIO_GET_LATENCY_TIMER, [0x10]), (FTDI_SIO_GET_MODEM_STATUS, [0x00])}"
      by simp_all
    show ?thesis
      unfolding shape vendor_in_shape [OF a b]
      by (simp add: events_of_bind split: res.splits)
  qed
  have ret: "result_of (usb_control_in d hw) = Some d \<and>
             tx_data (events_of (usb_control_in d hw)) = p"
    if "returns (usb_control_in d hw)"
    using that unfolding shape
    by (auto simp: returns_bind result_of_bind events_of_bind split: res.splits)
  show ?thesis
    using same ret by (auto simp: shape)
qed

text \<open>The theorem at Read EEPROM, with the endpoint ready and the host acknowledging.\<close>

theorem C9_vendor_in_canned_reply_witness:
  "usb_control_in (power_on\<lparr>head := request 0xC0 0x90 0 2\<rparr>)
       [snap 0x01 0 (\<lambda>_. 0), snap 0x04 0 (\<lambda>_. 0)] =
     Done (power_on\<lparr>head := request 0xC0 0x90 0 2\<rparr>)
       [Write UEDATX 0xff, Write UEDATX 0xff, Clear_bit UEINTX TXINI,
        Clear_bit UEINTX RXOUTI, Clear_bit UEINTX TXINI, Putchar CHR ''C''] []"
proof -
  have a: "loop_until_bit_is_set_UEINTX TXINI [snap 0x01 0 (\<lambda>_. 0), snap 0x04 0 (\<lambda>_. 0)]
             = Done () [] [snap 0x04 0 (\<lambda>_. 0)]"
    by (simp add: snap_def io_h)
  have b: "wait_status [snap 0x04 0 (\<lambda>_. 0)] = Done 0x04 [] []"
    by (simp add: snap_def io_h)
  from C9_vendor_in_canned_reply
         [where d = "power_on\<lparr>head := request 0xC0 0x90 0 2\<rparr>" and p = "[0xff, 0xff]"
            and hw = "[snap 0x01 0 (\<lambda>_. 0), snap 0x04 0 (\<lambda>_. 0)]"
            and ?hw1.0 = "[snap 0x04 0 (\<lambda>_. 0)]" and sts = "0x04" and ?hw2.0 = "[]"]
       a b
  show ?thesis
    by (simp add: request_def usb_h status_stage_def io_h)
qed

lemma set_config_shape:
  assumes "bmReqType (head d) = 0" "bReq (head d) = usb_req_set_config"
  shows "usb_control_out d hw =
     emit [Putchar CHR ''S'']
       (bind_res (setup_other_ep hw) (\<lambda>_ hw1.
          Done (d\<lparr>USB_config := ucast (wValue (head d))\<rparr>)
            [Putchar CHR ''s'', Clear_bit UEINTX TXINI, Putchar CHR ''C''] hw1))"
  using assms
  by (auto simp: usb_control_out_def usb_control_out_vendor_def USB_set_config_def usb_h Let_def
        control_status_def intro!: bind_res_cong_simple)

lemma get_config_shape:
  assumes "bmReqType (head d) = USB_REQ_TYPE_IN" "bReq (head d) = usb_req_get_config"
  shows "usb_control_in d hw =
     bind_res (loop_until_bit_is_set_UEINTX TXINI hw) (\<lambda>_ hw1.
       emit [Write UEDATX (USB_config d), Clear_bit UEINTX TXINI]
         (bind_res (wait_status hw1) (\<lambda>sts hw2. Done d (status_stage sts) hw2)))"
  using assms
  by (auto simp: usb_control_in_def usb_control_in_vendor_def usb_h Let_def EP_write8_def
        control_status_def bind_res_if status_stage_def
        intro!: bind_res_cong_simple arg_cong2[where f=emit])

text \<open>
  Claim C4, as amended. \<open>USB_config\<close> is a \<open>uint8_t\<close> and \<open>wValue\<close> has 16 bits:
  Set Configuration stores the low byte of \<open>wValue\<close>, and Get Configuration sends that
  byte. For a Set Configuration request (bmRequestType 0) with \<open>wValue = v\<close>:
  \<^item> once both bulk endpoints report \<open>CFGOK\<close>, \<open>usb_control_out\<close> returns, and whenever
    it returns the only change to the device state is \<open>USB_config = v mod 256\<close>;
  \<^item> a later Get Configuration request (bmRequestType \<open>0x80\<close>) in a state that still
    holds that value returns once \<open>TXINI\<close> shows and the host answers the status stage,
    and whenever it returns the data it has written is the single byte \<open>v mod 256\<close>;
  \<^item> that byte is \<open>v\<close> itself when \<open>v \<le> 255\<close>.
\<close>

theorem C4_set_then_get_configuration:
  assumes "bmReqType (head d) = 0" "bReq (head d) = usb_req_set_config" "wValue (head d) = v"
    and "bmReqType (head dg) = USB_REQ_TYPE_IN" "bReq (head dg) = usb_req_get_config"
  shows "(setup_other_ep hw = Done () e hw1 \<longrightarrow>
            usb_control_out d hw =
              Done (d\<lparr>USB_config := ucast v\<rparr>)
                (Putchar CHR ''S'' # e @ [Putchar CHR ''s'', Clear_bit UEINTX TXINI, Putchar CHR ''C''])
                hw1)
       \<and> (result_of (usb_control_out d hw) = Some d1 \<longrightarrow> d1 = d\<lparr>USB_config := ucast v\<rparr>)
       \<and> (USB_config dg = ucast v \<longrightarrow>
            (loop_until_bit_is_set_UEINTX TXINI hwg = Done () [] hg1 \<longrightarrow>
             wait_status hg1 = Done sts [] hg2 \<longrightarrow>
             usb_control_in dg hwg =
               Done dg ([Write UEDATX (ucast v), Clear_bit UEINTX TXINI] @ status_stage sts) hg2)
            \<and> (returns (usb_control_in dg hwg) \<longrightarrow>
                 tx_data (events_of (usb_control_in dg hwg)) = [ucast v]))
       \<and> (v \<le> 0xFF \<longrightarrow> (ucast (ucast v :: byte) :: word16) = v)"
proof -
  note s = set_config_shape [OF assms(1,2), unfolded assms(3)]
  note g = get_config_shape [OF assms(4,5)]
  have 1: "usb_control_out d hw =
              Done (d\<lparr>USB_config := ucast v\<rparr>)
                (Putchar CHR ''S'' # e @ [Putchar CHR ''s'', Clear_bit UEINTX TXINI, Putchar CHR ''C''])
                hw1"
    if "setup_other_ep hw = Done () e hw1"
    using that unfolding s by simp
  have 2: "d1 = d\<lparr>USB_config := ucast v\<rparr>" if "result_of (usb_control_out d hw) = Some d1"
    using that unfolding s by (auto simp: result_of_bind split: res.splits)
  have 3: "usb_control_in dg hwg =
             Done dg ([Write UEDATX (ucast v), Clear_bit UEINTX TXINI] @ status_stage sts) hg2"
    if "USB_config dg = ucast v"
      and "loop_until_bit_is_set_UEINTX TXINI hwg = Done () [] hg1"
      and "wait_status hg1 = Done sts [] hg2"
    using that unfolding g by simp
  have 4: "tx_data (events_of (usb_control_in dg hwg)) = [ucast v]"
    if "USB_config dg = ucast v" and "returns (usb_control_in dg hwg)"
    using that unfolding g
    by (auto simp: returns_bind events_of_bind split: res.splits)
  have 5: "(ucast (ucast v :: byte) :: word16) = v" if "v \<le> 0xFF"
  proof -
    from that have "unat v < 2 ^ 8" by (simp add: word_le_nat_alt)
    then have "unat (ucast (ucast v :: byte) :: word16) = unat v"
      by (simp add: unsigned_ucast_eq unsigned_take_bit_eq take_bit_nat_eq_self)
    then show ?thesis by (rule word_unat_eq_iff [THEN iffD2])
  qed
  show ?thesis using 1 2 3 4 5 by blast
qed

lemma setup_other_ep_ready:
  "setup_other_ep [snap 0 0 (\<lambda>_. 0), snap 0 0 (\<lambda>_. 0)] =
     Done () (configure_EP 1 0x81 @ configure_EP 2 0x80 @ EP_select 0) []"
  by (simp add: setup_other_ep_def snap_def io_h)

lemma loop_until_TXINI_ready:
  "loop_until_bit_is_set_UEINTX TXINI [snap 0x01 0 (\<lambda>_. 0), snap 0x04 0 (\<lambda>_. 0)]
     = Done () [] [snap 0x04 0 (\<lambda>_. 0)]"
  by (simp add: snap_def io_h)

lemma wait_status_ack: "wait_status [snap 0x04 0 (\<lambda>_. 0)] = Done 0x04 [] []"
  by (simp add: snap_def io_h)

text \<open>The theorem at \<open>wValue = 1\<close>, from power-on, with the hardware ready.\<close>

theorem C4_set_then_get_configuration_witness:
  "result_of (usb_control_out (power_on\<lparr>head := request 0 9 1 0\<rparr>)
                [snap 0 0 (\<lambda>_. 0), snap 0 0 (\<lambda>_. 0)])
     = Some (power_on\<lparr>head := request 0 9 1 0, USB_config := 1\<rparr>)
   \<and> tx_data (events_of (usb_control_in (power_on\<lparr>head := request 0x80 8 0 1, USB_config := 1\<rparr>)
                            [snap 0x01 0 (\<lambda>_. 0), snap 0x04 0 (\<lambda>_. 0)])) = [1]"
proof -
  have h: "bmReqType (head (power_on\<lparr>head := request 0 9 1 0\<rparr>)) = 0"
    "bReq (head (power_on\<lparr>head := request 0 9 1 0\<rparr>)) = usb_req_set_config"
    "wValue (head (power_on\<lparr>head := request 0 9 1 0\<rparr>)) = 1"
    "bmReqType (head (power_on\<lparr>head := request 0x80 8 0 1, USB_config := 1\<rparr>)) = USB_REQ_TYPE_IN"
    "bReq (head (power_on\<lparr>head := request 0x80 8 0 1, USB_config := 1\<rparr>)) = usb_req_get_config"
    by (simp_all add: request_def usb_h)
  have u: "USB_config (power_on\<lparr>head := request 0x80 8 0 1, USB_config := 1\<rparr>) = ucast (1 :: word16)"
    by simp
  note T = C4_set_then_get_configuration [OF h]
  from T [THEN conjunct1, rule_format, OF setup_other_ep_ready]
  have "result_of (usb_control_out (power_on\<lparr>head := request 0 9 1 0\<rparr>)
                [snap 0 0 (\<lambda>_. 0), snap 0 0 (\<lambda>_. 0)])
        = Some (power_on\<lparr>head := request 0 9 1 0, USB_config := ucast (1 :: word16)\<rparr>)"
    by (simp only: result_of.simps)
  moreover
  from T [THEN conjunct2, THEN conjunct2, THEN conjunct1, rule_format, OF u, THEN conjunct1,
          rule_format, OF loop_until_TXINI_ready wait_status_ack]
  have "tx_data (events_of (usb_control_in (power_on\<lparr>head := request 0x80 8 0 1, USB_config := 1\<rparr>)
                            [snap 0x01 0 (\<lambda>_. 0), snap 0x04 0 (\<lambda>_. 0)])) = [ucast (1 :: word16)]"
    by (simp add: status_stage_def)
  ultimately show ?thesis by simp
qed

text \<open>
  The claim as stated fails for a value above 255: after Set Configuration with
  \<open>wValue = 0x0100\<close> (256) the stored value is 0, and Get Configuration returns the
  byte 0.
\<close>

theorem C4_high_byte_is_lost:
  "result_of (usb_control_out (power_on\<lparr>head := request 0 9 0x0100 0, USB_config := 7\<rparr>)
                [snap 0 0 (\<lambda>_. 0), snap 0 0 (\<lambda>_. 0)])
     = Some (power_on\<lparr>head := request 0 9 0x0100 0, USB_config := 0\<rparr>)
   \<and> returns (usb_control_in (power_on\<lparr>head := request 0x80 8 0 1, USB_config := 0\<rparr>)
                [snap 0x01 0 (\<lambda>_. 0), snap 0x04 0 (\<lambda>_. 0)])
   \<and> map unat (tx_data (events_of
          (usb_control_in (power_on\<lparr>head := request 0x80 8 0 1, USB_config := 0\<rparr>)
             [snap 0x01 0 (\<lambda>_. 0), snap 0x04 0 (\<lambda>_. 0)]))) = [0]
   \<and> unat (wValue (request 0 9 0x0100 0)) = 256"
proof -
  have s: "usb_control_out (power_on\<lparr>head := request 0 9 0x0100 0, USB_config := 7\<rparr>)
             [snap 0 0 (\<lambda>_. 0), snap 0 0 (\<lambda>_. 0)] =
           emit [Putchar CHR ''S'']
             (bind_res (setup_other_ep [snap 0 0 (\<lambda>_. 0), snap 0 0 (\<lambda>_. 0)]) (\<lambda>_ hw1.
                Done (power_on\<lparr>head := request 0 9 0x0100 0, USB_config := 7,
                               USB_config := ucast (0x0100 :: word16)\<rparr>)
                  [Putchar CHR ''s'', Clear_bit UEINTX TXINI, Putchar CHR ''C''] hw1))"
    by (simp add: set_config_shape request_def usb_h)
  have g: "usb_control_in (power_on\<lparr>head := request 0x80 8 0 1, USB_config := 0\<rparr>)
             [snap 0x01 0 (\<lambda>_. 0), snap 0x04 0 (\<lambda>_. 0)] =
           Done (power_on\<lparr>head := request 0x80 8 0 1, USB_config := 0\<rparr>)
             ([Write UEDATX 0, Clear_bit UEINTX TXINI] @ status_stage 0x04) []"
    by (simp add: get_config_shape request_def usb_h snap_def io_h)
  show ?thesis
    unfolding s g setup_other_ep_ready
    by (simp add: request_def)
qed

section \<open>The relay: banner and echo\<close>

lemma famous_pgm_write:
  "pgm_write famous_message 14 =
     (map (Write UEDATX) (map of_char ''Hello world!'' @ [0x0D, 0x0A]), Some [0x00])"
  by (simp add: famous_message_def eval_nat_numeral)

lemma bulk_famous:
  "bulk_write_PM famous_message 14 hw =
     Done () (map (Write UEDATX) (map of_char ''Hello world!'' @ [0x0D, 0x0A])) hw"
  by (simp add: bulk_write_PM_def famous_pgm_write)

lemma outgoing_idle:
  "\<not> do_send_famous_message d \<Longrightarrow> \<not> do_send_char d \<Longrightarrow>
   handle_outgoing_bytes d hw = Done d (EP_select 1) hw"
  by (simp add: handle_outgoing_bytes_def)

lemma outgoing_clears_banner:
  "handle_outgoing_bytes d hw = Done d' evs hw' \<Longrightarrow> \<not> do_send_famous_message d'"
  by (auto simp: handle_outgoing_bytes_def Let_def bulk_famous emit_Done_iff
        split: if_splits list.splits)

lemma relay_step_clears_banner:
  "relay_step d hw = Done d' evs hw' \<Longrightarrow> \<not> do_send_famous_message d'"
  by (auto simp: relay_step_def bind_res_Done_iff dest: outgoing_clears_banner)

lemma main_loop_body_clears_banner:
  "main_loop_body d hw = Done d' evs hw' \<Longrightarrow> \<not> do_send_famous_message d'"
  by (auto simp: main_loop_body_def bind_res_Done_iff emit_Done_iff
        split: list.splits dest: relay_step_clears_banner)

lemma main_loop_clears_banner:
  "main_loop (Suc n) d hw = Done d' evs hw' \<Longrightarrow> \<not> do_send_famous_message d'"
proof (induction n arbitrary: d hw evs)
  case 0
  then show ?case
    by (auto simp: bind_res_Done_iff dest: main_loop_body_clears_banner)
next
  case (Suc n)
  have "main_loop (Suc (Suc n)) d hw = bind_res (main_loop_body d hw) (main_loop (Suc n))"
    by (rule main_loop.simps(2))
  with Suc.prems have "bind_res (main_loop_body d hw) (main_loop (Suc n)) = Done d' evs hw'"
    by (simp only:)
  then have "\<exists>a e1 h1 e2. main_loop_body d hw = Done a e1 h1 \<and>
               main_loop (Suc n) a h1 = Done d' e2 hw' \<and> evs = e1 @ e2"
    by (rule bind_res_Done_iff [THEN iffD1])
  then obtain a h1 e2 where "main_loop (Suc n) a h1 = Done d' e2 hw'"
    by blast
  then show ?case by (rule Suc.IH)
qed

lemma read_chars_numeral [simp]:
  "read_chars (numeral k) fifo i d =
     read_chars (pred_numeral k) fifo (Suc i)
       (let d' = d\<lparr>usb_char := fifo i\<rparr> in
        if usb_char d' = 0x61 then d'\<lparr>do_send_famous_message := True\<rparr>
        else d'\<lparr>do_send_char := True\<rparr>)"
  by (simp add: numeral_eq_Suc)

lemma tx_data_EP_select [simp]: "tx_data (EP_select k) = []"
  by (simp add: EP_select_def)

lemma result_of_Some_iff: "result_of r = Some a \<longleftrightarrow> (\<exists>evs hw. r = Done a evs hw)"
  by (cases r) auto

lemma relay_step_returns: "2 \<le> length hw \<Longrightarrow> returns (relay_step d hw)"
proof -
  assume "2 \<le> length hw"
  then obtain s1 s2 hw' where hw: "hw = s1 # s2 # hw'"
    by (cases hw; cases "tl hw") auto
  show ?thesis
    unfolding hw
    by (simp add: relay_step_def handle_incoming_bytes_def handle_outgoing_bytes_def
          bulk_famous Let_def)
qed

text \<open>
  Inside a round both flags can be set: a packet with the bytes \<open>'A'\<close> and \<open>'a'\<close>
  leaves the inbound step with an echo and the banner pending.
\<close>

lemma both_flags_inside_a_round:
  "result_of (handle_incoming_bytes power_on
                [snap 0x04 2 (\<lambda>i. if i = 0 then 0x41 else 0x61)]) =
     Some (power_on\<lparr>do_send_famous_message := True, do_send_char := True, usb_char := 0x61\<rparr>)"
  by (simp add: handle_incoming_bytes_def snap_def io_h power_on_def Let_def)

text \<open>
  Claim C3. The outbound step clears the banner flag whenever it is set, and the relay
  step ends with the outbound step; so after every relay step that has returned, after
  every round of the main loop, and at power-on, the banner flag and the echo flag are
  not both set. (Between the inbound and the outbound step of one round they can be,
  see \<open>both_flags_inside_a_round\<close>.) The bytes received are whatever the snapshots
  hold. The relay step returns as soon as the hardware has been observed twice.
\<close>

theorem C3_at_most_one_item_pending_after_step:
  "(result_of (relay_step d hw) = Some d' \<longrightarrow>
      \<not> (do_send_famous_message d' \<and> do_send_char d'))
   \<and> (result_of (main_loop (Suc n) d hw) = Some d' \<longrightarrow>
      \<not> (do_send_famous_message d' \<and> do_send_char d'))
   \<and> (result_of (main_loop n power_on hw) = Some d' \<longrightarrow>
      \<not> (do_send_famous_message d' \<and> do_send_char d'))
   \<and> (2 \<le> length hw \<longrightarrow> returns (relay_step d hw))"
proof (intro conjI impI)
  assume "2 \<le> length hw"
  then show "returns (relay_step d hw)" by (rule relay_step_returns)
next
  assume "result_of (relay_step d hw) = Some d'"
  then show "\<not> (do_send_famous_message d' \<and> do_send_char d')"
    by (auto simp: result_of_Some_iff dest: relay_step_clears_banner)
next
  assume "result_of (main_loop (Suc n) d hw) = Some d'"
  then show "\<not> (do_send_famous_message d' \<and> do_send_char d')"
    by (auto simp: result_of_Some_iff simp del: main_loop.simps dest: main_loop_clears_banner)
next
  assume r: "result_of (main_loop n power_on hw) = Some d'"
  show "\<not> (do_send_famous_message d' \<and> do_send_char d')"
  proof (cases n)
    case 0
    with r have "d' = power_on" by simp
    then show ?thesis by (simp add: power_on_def)
  next
    case (Suc m)
    with r show ?thesis
      by (auto simp: result_of_Some_iff simp del: main_loop.simps dest: main_loop_clears_banner)
  qed
qed

lemma relay_step_A_then_a:
  "result_of (relay_step power_on
      [snap 0x04 2 (\<lambda>i. if i = 0 then 0x41 else 0x61), snap 0x01 0 (\<lambda>_. 0)]) =
     Some (power_on\<lparr>do_send_char := True, usb_char := 0x61\<rparr>)"
  by (simp add: relay_step_def handle_incoming_bytes_def handle_outgoing_bytes_def bulk_famous
        snap_def io_h power_on_def Let_def)

text \<open>
  The theorem at a relay step from power-on that receives \<open>'A'\<close> and \<open>'a'\<close> in one
  packet: the banner goes out, the echo stays pending.
\<close>

theorem C3_at_most_one_item_pending_after_step_witness:
  "result_of (relay_step power_on
      [snap 0x04 2 (\<lambda>i. if i = 0 then 0x41 else 0x61), snap 0x01 0 (\<lambda>_. 0)]) =
     Some (power_on\<lparr>do_send_char := True, usb_char := 0x61\<rparr>)
   \<and> \<not> (do_send_famous_message (power_on\<lparr>do_send_char := True, usb_char := 0x61\<rparr>)
        \<and> do_send_char (power_on\<lparr>do_send_char := True, usb_char := 0x61\<rparr>))"
  by (rule conjI [OF relay_step_A_then_a
        C3_at_most_one_item_pending_after_step
          [THEN conjunct1, rule_format, OF relay_step_A_then_a]])

text \<open>
  Claim C6. With no banner pending, a packet of the single byte \<open>0x41\<close> on the bulk OUT
  endpoint (\<open>RXOUTI\<close> set, byte count 1) followed by an outbound poll that finds
  \<open>TXINI\<close> set: the relay step returns, and the bytes it writes to the bulk IN endpoint
  are exactly \<open>80 00 41\<close>, between clearing \<open>TXINI\<close> and clearing \<open>FIFOCON\<close>.
\<close>

theorem C6_echo_of_A:
  assumes "\<not> do_send_famous_message d"
    and "bit (rd_UEINTX s1) RXOUTI" "rd_UEBCHX s1 = 0" "rd_UEBCLX s1 = 1" "rd_UEDATX s1 0 = 0x41"
    and "bit (rd_UEINTX s2) TXINI"
  shows "relay_step d (s1 # s2 # hw) =
           Done (d\<lparr>usb_char := 0x41, do_send_char := False\<rparr>)
             (EP_select 2 @ [Clear_bit UEINTX RXOUTI, Clear_bit UEINTX FIFOCON] @
              EP_select 1 @ [Clear_bit UEINTX TXINI, Write UEDATX 0x80, Write UEDATX 0x00,
                             Write UEDATX 0x41, Clear_bit UEINTX FIFOCON]) hw
         \<and> tx_data (events_of (relay_step d (s1 # s2 # hw))) = [0x80, 0x00, 0x41]"
  using assms
  by (simp add: relay_step_def handle_incoming_bytes_def handle_outgoing_bytes_def Let_def
        send_reserved_bytes_def EP_select_def)

lemma sample_rx_tx:
  "bit (rd_UEINTX (snap 0x04 1 (\<lambda>_. c))) RXOUTI" "rd_UEBCHX (snap 0x04 1 (\<lambda>_. c)) = 0"
  "rd_UEBCLX (snap 0x04 1 (\<lambda>_. c)) = 1" "rd_UEDATX (snap 0x04 1 (\<lambda>_. c)) 0 = c"
  "bit (rd_UEINTX (snap 0x01 0 (\<lambda>_. 0))) TXINI"
  "\<not> bit (rd_UEINTX (snap 0x00 0 (\<lambda>_. 0))) TXINI"
  by (simp_all add: snap_def io_h)

lemma power_on_flags:
  "\<not> do_send_famous_message power_on" "\<not> do_send_char power_on"
  by (simp_all add: power_on_def)

text \<open>The theorem from power-on.\<close>

theorem C6_echo_of_A_witness:
  "tx_data (events_of (relay_step power_on
      [snap 0x04 1 (\<lambda>_. 0x41), snap 0x01 0 (\<lambda>_. 0)])) = [0x80, 0x00, 0x41]"
  by (rule C6_echo_of_A [OF power_on_flags(1) sample_rx_tx(1,2,3,4,5), THEN conjunct2])



lemma tx_data_selects [simp]: "tx_data (concat (replicate n (EP_select k))) = []"
  by (induction n) simp_all

lemma polls_idle:
  "\<not> do_send_famous_message d \<Longrightarrow> \<not> do_send_char d \<Longrightarrow>
   outgoing_polls n d hw = Done d (concat (replicate n (EP_select 1))) hw"
  by (induction n) (simp_all add: outgoing_idle)

lemma polls_echo_only:
  assumes "\<not> do_send_famous_message d"
  shows "tx_data (events_of (outgoing_polls n d hw))
           \<in> (if do_send_char d then {[], [0x80, 0x00, usb_char d]} else {[]})"
proof (cases n)
  case 0
  then show ?thesis by simp
next
  case (Suc m)
  show ?thesis
  proof (cases "do_send_char d")
    case False
    with assms show ?thesis by (simp add: polls_idle)
  next
    case True
    show ?thesis
    proof (cases hw)
      case Nil
      with assms True Suc show ?thesis
        by (simp add: handle_outgoing_bytes_def)
    next
      case (Cons s hw')
      with assms True Suc show ?thesis
        by (simp add: handle_outgoing_bytes_def Let_def polls_idle send_reserved_bytes_def)
    qed
  qed
qed

text \<open>
  Claim C10. An outbound poll that finds \<open>TXINI\<close> clear:
  \<^item> with the banner pending, it returns with the banner flag cleared and nothing else
    changed, having only selected the endpoint; in any number of further outbound polls
    (no inbound data between them) the banner is never written: the data written is
    empty, or the echo packet when an echo was pending as well;
  \<^item> with only an echo pending, it returns with the echo flag cleared, having only
    selected the endpoint; any number of further outbound polls write nothing and leave
    the state as it is.
  So the flag of an item is cleared by the one poll that serves it, ready or not.
\<close>

theorem C10_item_dropped_when_not_ready:
  assumes "\<not> bit (rd_UEINTX s) TXINI"
  shows "(do_send_famous_message d \<longrightarrow>
            handle_outgoing_bytes d (s # hw) =
              Done (d\<lparr>do_send_famous_message := False\<rparr>) (EP_select 1) hw
          \<and> tx_data (EP_select 1) = []
          \<and> tx_data (events_of (outgoing_polls n (d\<lparr>do_send_famous_message := False\<rparr>) hw'))
              \<in> (if do_send_char d then {[], [0x80, 0x00, usb_char d]} else {[]}))
       \<and> (\<not> do_send_famous_message d \<and> do_send_char d \<longrightarrow>
            handle_outgoing_bytes d (s # hw) = Done (d\<lparr>do_send_char := False\<rparr>) (EP_select 1) hw
          \<and> outgoing_polls n (d\<lparr>do_send_char := False\<rparr>) hw' =
              Done (d\<lparr>do_send_char := False\<rparr>) (concat (replicate n (EP_select 1))) hw'
          \<and> tx_data (events_of (outgoing_polls n (d\<lparr>do_send_char := False\<rparr>) hw')) = [])"
proof (intro conjI impI)
  assume "do_send_famous_message d"
  with assms show "handle_outgoing_bytes d (s # hw) =
              Done (d\<lparr>do_send_famous_message := False\<rparr>) (EP_select 1) hw"
    by (simp add: handle_outgoing_bytes_def)
next
  show "tx_data (EP_select 1) = []" by simp
next
  show "tx_data (events_of (outgoing_polls n (d\<lparr>do_send_famous_message := False\<rparr>) hw'))
              \<in> (if do_send_char d then {[], [0x80, 0x00, usb_char d]} else {[]})"
    using polls_echo_only [of "d\<lparr>do_send_famous_message := False\<rparr>" n hw']
    by (simp split: if_splits)
next
  assume "\<not> do_send_famous_message d \<and> do_send_char d"
  with assms show "handle_outgoing_bytes d (s # hw) =
      Done (d\<lparr>do_send_char := False\<rparr>) (EP_select 1) hw"
    by (simp add: handle_outgoing_bytes_def)
next
  assume a: "\<not> do_send_famous_message d \<and> do_send_char d"
  then show "outgoing_polls n (d\<lparr>do_send_char := False\<rparr>) hw' =
              Done (d\<lparr>do_send_char := False\<rparr>) (concat (replicate n (EP_select 1))) hw'"
    by (simp add: polls_idle)
  with a show "tx_data (events_of (outgoing_polls n (d\<lparr>do_send_char := False\<rparr>) hw')) = []"
    by simp
qed

lemma banner_pending:
  "do_send_famous_message (power_on\<lparr>do_send_famous_message := True\<rparr>)"
  by simp

text \<open>The theorem with the banner pending and the endpoint not ready.\<close>

theorem C10_item_dropped_when_not_ready_witness:
  "handle_outgoing_bytes (power_on\<lparr>do_send_famous_message := True\<rparr>)
       [snap 0x00 0 (\<lambda>_. 0)] =
     Done (power_on\<lparr>do_send_famous_message := True, do_send_famous_message := False\<rparr>)
       (EP_select 1) []"
  by (rule C10_item_dropped_when_not_ready
        [OF sample_rx_tx(6), THEN conjunct1, rule_format, OF banner_pending, THEN conjunct1])

section \<open>Get Descriptor\<close>


lemma unat_ucast_byte [simp]: "unat (ucast (b :: byte) :: word16) = unat b"
proof -
  have "unat b < 2 ^ 8" using unsigned_less [of b] by simp
  then have "unat b < 2 ^ 16" by simp
  then show ?thesis by (simp add: unsigned_ucast_eq take_bit_nat_eq_self)
qed





subsection \<open>The flash images of the descriptors\<close>




















lemma tx_data_control_status [simp]: "tx_data (events_of (control_status ok h hw)) = []"
  by (simp add: control_status_def events_of_bind split: res.splits)




end
